theory Spec2Isabelle
  imports Main "HOL-Library.Sublist"
begin

section \<open>JavaScript values\<close>

text \<open>
  The consumer in \<^verbatim>\<open>lambda/sample-lambda-2/index.js\<close> builds untyped objects and tests a
  property of them for truthiness (\<^verbatim>\<open>result.error\<close>), so its values are modelled as the
  JavaScript values they are. An object is the list of its properties in insertion
  order. The numbers the handler makes are integral (a status code, a length, a clock
  reading); a parsed body is carried along as it is and never looked into.
\<close>

datatype js =
    JUndefined
  | JNull
  | JBool bool
  | JNum int
  | JStr string
  | JArr "js list"
  | JObj "(string \<times> js) list"

text \<open>
  Property access \<^verbatim>\<open>o.k\<close>: a missing property reads as \<^verbatim>\<open>undefined\<close>. The handler reads
  properties of the objects it has pushed itself only, so the other cases never run.
\<close>

fun get_prop :: "js \<Rightarrow> string \<Rightarrow> js" where
  "get_prop (JObj kvs) k = (case map_of kvs k of Some v \<Rightarrow> v | None \<Rightarrow> JUndefined)"
| "get_prop _ k = JUndefined"

text \<open>Truthiness, as \<^verbatim>\<open>Array.prototype.filter\<close> and \<^verbatim>\<open>||\<close> read a value.\<close>

fun truthy :: "js \<Rightarrow> bool" where
  "truthy JUndefined = False"
| "truthy JNull = False"
| "truthy (JBool b) = b"
| "truthy (JNum n) = (n \<noteq> 0)"
| "truthy (JStr s) = (s \<noteq> [])"
| "truthy (JArr xs) = True"
| "truthy (JObj kvs) = True"

section \<open>The batch consumer (lambda/sample-lambda-2/index.js)\<close>

subsection \<open>The delivered event\<close>

record message_attribute =
  stringValue :: "string option"
  dataType :: string

record sqs_record =
  messageId :: string
  receiptHandle :: string
  body :: string
  messageAttributes :: "(string \<times> message_attribute) list option"

text \<open>
  \<^verbatim>\<open>event.Records\<close> is \<open>None\<close> when the event has no such property: the \<^verbatim>\<open>for ... of\<close> of
  line 7 then throws a TypeError outside every \<^verbatim>\<open>try\<close>.
\<close>

record event =
  Records :: "sqs_record list option"

datatype js_error = TypeError string

subsection \<open>What the handler takes from its runtime\<close>

text \<open>
  \<^verbatim>\<open>JSON.parse\<close> belongs to the runtime, not to the repository: it is a parameter.
  \<open>Inl m\<close> is the SyntaxError thrown, with its message \<open>m\<close>. The clock is read twice for
  every record that parses (\<^verbatim>\<open>new Date()\<close>, then \<^verbatim>\<open>Date.now()\<close>); \<open>clock k\<close> is the reading
  of the \<open>k\<close>-th read of the invocation, in milliseconds. Console output is not modelled:
  it does not reach the returned value.
\<close>

record js_runtime =
  json_parse :: "string \<Rightarrow> string + js"
  clock :: "nat \<Rightarrow> int"
  toISOString :: "int \<Rightarrow> string"

subsection \<open>The loop body\<close>

text \<open>\<^verbatim>\<open>s.slice(-6)\<close>: the last six characters, the whole string when it is shorter. The
  identifiers of the queue are ASCII, one character a code unit.\<close>

definition slice_last6 :: "string \<Rightarrow> string" where
  "slice_last6 s = drop (length s - 6) s"

text \<open>\<^verbatim>\<open>record.messageAttributes?.NAME?.stringValue || 'unknown'\<close>\<close>

definition attribute_or_unknown :: "sqs_record \<Rightarrow> string \<Rightarrow> string" where
  "attribute_or_unknown r name =
     (case messageAttributes r of
        None \<Rightarrow> ''unknown''
      | Some attrs \<Rightarrow>
          (case map_of attrs name of
             None \<Rightarrow> ''unknown''
           | Some a \<Rightarrow>
               (case stringValue a of
                  None \<Rightarrow> ''unknown''
                | Some s \<Rightarrow> if s = [] then ''unknown'' else s)))"

text \<open>
  Lines 9 to 35, the body of the \<^verbatim>\<open>try\<close>: \<open>Inl m\<close> when an error with message \<open>m\<close> is
  thrown (only \<^verbatim>\<open>JSON.parse\<close> can throw on a record of this type), otherwise the object
  \<^verbatim>\<open>processedData\<close> and the number of clock reads made so far.
\<close>

definition try_block :: "js_runtime \<Rightarrow> nat \<Rightarrow> sqs_record \<Rightarrow> string + (js \<times> nat)" where
  "try_block rt t r =
     (case json_parse rt (body r) of
        Inl m \<Rightarrow> Inl m
      | Inr messageBody \<Rightarrow>
          Inr (JObj
                [(''messageId'', JStr (messageId r)),
                 (''receiptHandle'', JStr (receiptHandle r)),
                 (''processingTime'', JStr (toISOString rt (clock rt t))),
                 (''source'', JStr (attribute_or_unknown r ''Source'')),
                 (''requestId'', JStr (attribute_or_unknown r ''RequestId'')),
                 (''processedBy'', JStr ''sample-lambda-2''),
                 (''data'', messageBody),
                 (''enhanced'', JObj
                    [(''processingDelay'', JNum 100),
                     (''specialField'', JStr (''enhanced-'' @ slice_last6 (messageId r))),
                     (''timestamp'', JNum (clock rt (t + 1)))])],
               t + 2))"

text \<open>Lines 41 to 44, the object pushed by the \<^verbatim>\<open>catch\<close>.\<close>

definition failure_entry :: "sqs_record \<Rightarrow> string \<Rightarrow> js" where
  "failure_entry r m = JObj [(''itemIdentifier'', JStr (messageId r)), (''error'', JStr m)]"

text \<open>
  Lines 7 to 46: the loop over the records, with the array \<^verbatim>\<open>results\<close> and the number of
  clock reads as its state. \<^verbatim>\<open>results.push(x)\<close> appends.
\<close>

fun process_records :: "js_runtime \<Rightarrow> sqs_record list \<Rightarrow> js list \<times> nat \<Rightarrow> js list \<times> nat" where
  "process_records rt [] st = st"
| "process_records rt (r # rs) (results, t) =
     (case try_block rt t r of
        Inr (processedData, t') \<Rightarrow> process_records rt rs (results @ [processedData], t')
      | Inl m \<Rightarrow> process_records rt rs (results @ [failure_entry r m], t))"

subsection \<open>The handler\<close>

definition handler :: "js_runtime \<Rightarrow> event \<Rightarrow> js_error + js" where
  "handler rt ev =
     (case Records ev of
        None \<Rightarrow> Inl (TypeError ''event.Records is not iterable'')
      | Some recs \<Rightarrow>
          (let results = fst (process_records rt recs ([], 0));
               failures = filter (\<lambda>result. truthy (get_prop result ''error'')) results
           in if length failures > 0
              then Inr (JObj
                     [(''batchItemFailures'',
                       JArr (map (\<lambda>failure.
                                    JObj [(''itemIdentifier'', get_prop failure ''itemIdentifier'')])
                                 failures))])
              else Inr (JObj
                     [(''statusCode'', JNum 200),
                      (''processedCount'', JNum (int (length results))),
                      (''results'', JArr results)])))"

subsection \<open>Reading the handler's answer\<close>

text \<open>
  A record fails transformation when the \<^verbatim>\<open>try\<close> block throws on it; whether it does
  is the same at every clock reading.
\<close>

definition fails :: "js_runtime \<Rightarrow> sqs_record \<Rightarrow> bool" where
  "fails rt r = isl (try_block rt 0 r)"

text \<open>
  The identifiers a response reports as failed: the \<^verbatim>\<open>itemIdentifier\<close> of every entry of
  its \<^verbatim>\<open>batchItemFailures\<close>, none when the response has no such list.
\<close>

definition reported_failures :: "js \<Rightarrow> js list" where
  "reported_failures resp =
     (case get_prop resp ''batchItemFailures'' of
        JArr items \<Rightarrow> map (\<lambda>item. get_prop item ''itemIdentifier'') items
      | _ \<Rightarrow> [])"


subsection \<open>The array \<^verbatim>\<open>results\<close>, entry by entry\<close>

text \<open>
  What the loop appends for a list of records, starting at clock read \<open>t\<close>: the loop
  without its accumulator. The lemma \<open>process_records_outcomes\<close> relates the two.
\<close>

fun outcomes :: "js_runtime \<Rightarrow> nat \<Rightarrow> sqs_record list \<Rightarrow> js list" where
  "outcomes rt t [] = []"
| "outcomes rt t (r # rs) =
     (case try_block rt t r of
        Inr (processedData, t') \<Rightarrow> processedData # outcomes rt t' rs
      | Inl m \<Rightarrow> failure_entry r m # outcomes rt t rs)"


subsection \<open>A sample runtime and sample batches\<close>

text \<open>
  A runtime whose parser accepts one body, and a batch of three records of which the
  second has a malformed body.
\<close>

definition hello_body :: string where
  \<open>hello_body = ''{"message":"Hello World"}''\<close>

definition demo_runtime :: js_runtime where
  "demo_runtime =
     \<lparr>json_parse = (\<lambda>b. if b = hello_body then Inr (JObj [(''message'', JStr ''Hello World'')])
                          else Inl ''Unexpected token in JSON''),
      clock = (\<lambda>k. 1700000000000 + 100 * int k),
      toISOString = (\<lambda>t. ''2023-11-14T22:13:20.000Z'')\<rparr>"

definition demo_record :: "string \<Rightarrow> string \<Rightarrow> sqs_record" where
  "demo_record i b =
     \<lparr>messageId = i, receiptHandle = ''rh-'' @ i, body = b,
      messageAttributes =
        Some [(''Source'', \<lparr>stringValue = Some ''API-Gateway'', dataType = ''String''\<rparr>),
              (''RequestId'', \<lparr>stringValue = Some ''req-1'', dataType = ''String''\<rparr>)]\<rparr>"

definition demo_batch :: "sqs_record list" where
  "demo_batch = [demo_record ''m-0001'' hello_body, demo_record ''m-0002'' ''{oops'',
                 demo_record ''m-0003'' hello_body]"

text \<open>
  A runtime no JavaScript engine is: its parser throws errors with an empty message.
\<close>

definition silent_runtime :: js_runtime where
  "silent_runtime = demo_runtime\<lparr>json_parse := (\<lambda>b. Inl [])\<rparr>"

section \<open>The backend stack (class BackendStack of the stack definitions)\<close>

subsection \<open>Durations\<close>

text \<open>
  \<^verbatim>\<open>cdk.Duration.seconds(n)\<close> and \<^verbatim>\<open>cdk.Duration.days(n)\<close>, and the length they stand for in
  seconds.
\<close>

datatype duration = Seconds nat | Days nat

fun toSeconds :: "duration \<Rightarrow> nat" where
  "toSeconds (Seconds n) = n"
| "toSeconds (Days n) = n * 86400"

subsection \<open>Queues\<close>

text \<open>
  The properties a queue is declared with; \<open>None\<close> is a property the declaration leaves
  out. \<open>deadLetterQueue\<close> holds the queue referred to and \<^verbatim>\<open>maxReceiveCount\<close>.
\<close>

datatype sqs_queue =
  Queue (construct_id: string)
        (queueName: string)
        (visibilityTimeout: "duration option")
        (retentionPeriod: "duration option")
        (deadLetterQueue: "(sqs_queue \<times> nat) option")

definition dlq1 :: sqs_queue where
  "dlq1 = Queue ''SampleLambda1DLQ'' ''sample-lambda-1-dlq'' None (Some (Days 14)) None"

definition dlq2 :: sqs_queue where
  "dlq2 = Queue ''SampleLambda2DLQ'' ''sample-lambda-2-dlq'' None (Some (Days 14)) None"

definition queue1 :: sqs_queue where
  "queue1 = Queue ''SampleLambda1Queue'' ''sample-lambda-1-queue'' (Some (Seconds 60)) None
              (Some (dlq1, 3))"

definition queue2 :: sqs_queue where
  "queue2 = Queue ''SampleLambda2Queue'' ''sample-lambda-2-queue'' (Some (Seconds 60)) None
              (Some (dlq2, 3))"

subsection \<open>Consumer functions and their event sources\<close>

datatype lambda_function =
  Function (function_id: string)
           (function_runtime: string)
           (function_handler: string)
           (function_code: string)
           (timeout: "duration option")
           (environment: "(string \<times> sqs_queue) list")

definition lambdaFunction1 :: lambda_function where
  "lambdaFunction1 =
     Function ''ApiHandler1'' ''NODEJS_18_X'' ''index.handler'' ''lambda/sample-lambda-1''
       (Some (Seconds 30)) [(''QUEUE_URL'', queue1)]"

definition lambdaFunction2 :: lambda_function where
  "lambdaFunction2 =
     Function ''ApiHandler2'' ''NODEJS_18_X'' ''index.handler'' ''lambda/sample-lambda-2''
       (Some (Seconds 30)) [(''QUEUE_URL'', queue2)]"

text \<open>\<^verbatim>\<open>fn.addEventSource(new eventsources.SqsEventSource(queue, {...}))\<close>\<close>

record sqs_event_source =
  source_queue :: sqs_queue
  consumer :: lambda_function
  batchSize :: nat
  maxBatchingWindow :: duration
  reportBatchItemFailures :: bool

definition event_sources :: "sqs_event_source list" where
  "event_sources =
     [\<lparr>source_queue = queue1, consumer = lambdaFunction1, batchSize = 10,
       maxBatchingWindow = Seconds 5, reportBatchItemFailures = True\<rparr>,
      \<lparr>source_queue = queue2, consumer = lambdaFunction2, batchSize = 10,
       maxBatchingWindow = Seconds 5, reportBatchItemFailures = True\<rparr>]"

text \<open>The queues of the stack, in the order of their declaration.\<close>

definition stack_queues :: "sqs_queue list" where
  "stack_queues = [dlq1, dlq2, queue1, queue2]"

text \<open>
  A primary queue is one a consumer drains; a dead-letter queue is one another queue
  names as its \<open>deadLetterQueue\<close>.
\<close>

definition primary_queues :: "sqs_queue list" where
  "primary_queues = map source_queue event_sources"

definition dead_letter_queues :: "sqs_queue list" where
  "dead_letter_queues = map fst (List.map_filter deadLetterQueue stack_queues)"

section \<open>The life of a queued message\<close>

text \<open>
  Modelled from the spec: the queuing layer is a managed service, and the repository
  holds its configuration only (the queues above). What the layer does with one message
  follows sections 3 and 4.1 of the specification: a visible message is delivered and
  is then in flight; a failed delivery (the consumer reports the identifier, or the
  visibility window runs out) makes it visible again; an acknowledged delivery removes
  it; after \<^verbatim>\<open>maxReceiveCount\<close> deliveries without acknowledgment the layer moves it to
  the dead-letter queue and presents it to the consumer no more; a message older than
  the retention window of the queue holding it is discarded. The threshold and the
  retention windows are read from the queue as the stack declares it; a queue declared
  without \<open>retentionPeriod\<close> has the window of the service's default, a parameter here.
\<close>

datatype place = Visible | InFlight | DeadLetter | Acknowledged | Discarded

record message =
  place :: place
  receiveCount :: nat
  age :: nat

datatype actor = QueueLayer | Consumer

datatype action =
    Deliver
  | ReportFailure
  | VisibilityTimeout
  | Acknowledge
  | Redrive
  | Elapse nat
  | Expire

fun performed_by :: "action \<Rightarrow> actor" where
  "performed_by ReportFailure = Consumer"
| "performed_by Acknowledge = Consumer"
| "performed_by _ = QueueLayer"

definition retention_window :: "nat \<Rightarrow> sqs_queue \<Rightarrow> nat" where
  "retention_window service_default q =
     (case retentionPeriod q of Some p \<Rightarrow> toSeconds p | None \<Rightarrow> service_default)"

text \<open>
  Modelled from the spec: the step relation of the queuing layer (sections 3 and 4.1),
  as a partial function. \<open>step d q a m\<close> is the message after action
  \<open>a\<close>, \<open>None\<close> when the action is not enabled. \<open>d\<close> is the default retention window in
  seconds, \<open>q\<close> the primary queue the message was sent to.
\<close>

fun step :: "nat \<Rightarrow> sqs_queue \<Rightarrow> action \<Rightarrow> message \<Rightarrow> message option" where
  "step d q Deliver m =
     (if place m = Visible \<and>
         (case deadLetterQueue q of Some (dl, n) \<Rightarrow> receiveCount m < n | None \<Rightarrow> True)
      then Some (m\<lparr>place := InFlight, receiveCount := receiveCount m + 1\<rparr>)
      else None)"
| "step d q ReportFailure m =
     (if place m = InFlight then Some (m\<lparr>place := Visible\<rparr>) else None)"
| "step d q VisibilityTimeout m =
     (if place m = InFlight then Some (m\<lparr>place := Visible\<rparr>) else None)"
| "step d q Acknowledge m =
     (if place m = InFlight then Some (m\<lparr>place := Acknowledged\<rparr>) else None)"
| "step d q Redrive m =
     (case deadLetterQueue q of
        Some (dl, n) \<Rightarrow>
          if place m = Visible \<and> n \<le> receiveCount m then Some (m\<lparr>place := DeadLetter\<rparr>)
          else None
      | None \<Rightarrow> None)"
| "step d q (Elapse k) m =
     (if place m = Visible \<or> place m = InFlight \<or> place m = DeadLetter
      then Some (m\<lparr>age := age m + k\<rparr>) else None)"
| "step d q Expire m =
     (if (place m = Visible \<or> place m = InFlight) \<and> retention_window d q < age m
      then Some (m\<lparr>place := Discarded\<rparr>)
      else if place m = DeadLetter \<and>
              (case deadLetterQueue q of
                 Some (dl, n) \<Rightarrow> retention_window d dl < age m
               | None \<Rightarrow> False)
      then Some (m\<lparr>place := Discarded\<rparr>)
      else None)"

text \<open>A run: the actions of a list, one after the other.\<close>

fun run :: "nat \<Rightarrow> sqs_queue \<Rightarrow> action list \<Rightarrow> message \<Rightarrow> message option" where
  "run d q [] m = Some m"
| "run d q (a # as) m = (case step d q a m of None \<Rightarrow> None | Some m' \<Rightarrow> run d q as m')"

definition enqueued :: message where
  "enqueued = \<lparr>place = Visible, receiveCount = 0, age = 0\<rparr>"

text \<open>
  A delivery fails when the consumer reports the identifier or when the visibility
  window runs out before an acknowledgment. \<open>failed_deliveries fs\<close> is one delivery for
  every entry of \<open>fs\<close>, each followed by the failure the entry names.
\<close>

definition is_failure :: "action \<Rightarrow> bool" where
  "is_failure a \<longleftrightarrow> a = ReportFailure \<or> a = VisibilityTimeout"

definition failed_deliveries :: "action list \<Rightarrow> action list" where
  "failed_deliveries fs = concat (map (\<lambda>f. [Deliver, f]) fs)"

text \<open>
  The states from which the primary consumer cannot be reached again, for threshold \<open>n\<close>.
\<close>

definition quarantined :: "nat \<Rightarrow> message \<Rightarrow> bool" where
  "quarantined n m \<longleftrightarrow>
     place m = DeadLetter \<or> place m = Acknowledged \<or> place m = Discarded \<or>
     (place m = Visible \<and> n \<le> receiveCount m)"

section \<open>The ingestion endpoint (BackendStack, the API and its queue integrations)\<close>

subsection \<open>Form encoding\<close>

text \<open>
  \<^verbatim>\<open>$util.urlEncode\<close> is a function of the gateway's template engine, and the queuing
  service decodes what it produced: both follow \<^verbatim>\<open>application/x-www-form-urlencoded\<close>.
  A string is the list of its bytes. Letters, digits and \<^verbatim>\<open>. - * _\<close> stand for
  themselves, a space becomes \<^verbatim>\<open>+\<close>, every other byte \<^verbatim>\<open>%XX\<close> with two upper-case
  hexadecimal digits.
\<close>

definition hex_digit :: "nat \<Rightarrow> char" where
  "hex_digit n = (if n < 10 then char_of (48 + n) else char_of (55 + n))"


definition unreserved :: "char \<Rightarrow> bool" where
  "unreserved c \<longleftrightarrow>
     (let n = of_char c :: nat
      in (48 \<le> n \<and> n \<le> 57) \<or> (65 \<le> n \<and> n \<le> 90) \<or> (97 \<le> n \<and> n \<le> 122) \<or>
         c = CHR ''.'' \<or> c = CHR ''-'' \<or> c = CHR ''*'' \<or> c = CHR ''_'')"

definition urlEncode_char :: "char \<Rightarrow> string" where
  "urlEncode_char c =
     (if unreserved c then [c]
      else if c = CHR '' '' then ''+''
      else [CHR ''%'', hex_digit (of_char c div 16), hex_digit (of_char c mod 16)])"

definition urlEncode :: "string \<Rightarrow> string" where
  "urlEncode s = concat (map urlEncode_char s)"


subsection \<open>Mapping templates\<close>

text \<open>
  What a template may refer to: the payload of the request and the identifier the
  gateway gave it.
\<close>

record template_context =
  input_body :: string
  context_requestId :: string

text \<open>
  Rendering a template: the two references the templates of this stack use are replaced,
  every other character is copied. The text put in for a reference is not read again.
\<close>

function render :: "template_context \<Rightarrow> string \<Rightarrow> string" where
  "render ctx [] = []"
| "render ctx (c # cs) =
     (if prefix ''$util.urlEncode($input.body)'' (c # cs)
      then urlEncode (input_body ctx) @ render ctx (drop 28 (c # cs))
      else if prefix ''$context.requestId'' (c # cs)
      then context_requestId ctx @ render ctx (drop 18 (c # cs))
      else c # render ctx cs)"
  by pat_completeness auto
termination
  by (relation "measure (\<lambda>(ctx, s). length s)") auto

subsection \<open>\<^verbatim>\<open>JSON.stringify\<close>\<close>

text \<open>
  The response template is built with \<^verbatim>\<open>JSON.stringify\<close> when the stack is synthesised.
  \<open>None\<close> is \<^verbatim>\<open>undefined\<close>: a property with such a value is left out of an object, an
  element with such a value is \<^verbatim>\<open>null\<close> in an array.
\<close>

fun decimal :: "nat \<Rightarrow> string" where
  "decimal n = (if n < 10 then [char_of (48 + n)] else decimal (n div 10) @ [char_of (48 + n mod 10)])"

declare decimal.simps [simp del]

definition decimal_int :: "int \<Rightarrow> string" where
  "decimal_int i = (if i < 0 then ''-'' @ decimal (nat (- i)) else decimal (nat i))"

definition escape_char :: "char \<Rightarrow> string" where
  "escape_char c =
     (if c = CHR 0x22 then [CHR 0x5C, CHR 0x22]
      else if c = CHR 0x5C then [CHR 0x5C, CHR 0x5C]
      else if c = CHR 0x08 then [CHR 0x5C, CHR ''b'']
      else if c = CHR 0x0C then [CHR 0x5C, CHR ''f'']
      else if c = CHR 0x0A then [CHR 0x5C, CHR ''n'']
      else if c = CHR 0x0D then [CHR 0x5C, CHR ''r'']
      else if c = CHR 0x09 then [CHR 0x5C, CHR ''t'']
      else if (of_char c :: nat) < 32
      then [CHR 0x5C, CHR ''u'', CHR ''0'', CHR ''0'',
            (if (of_char c :: nat) < 16 then CHR ''0'' else CHR ''1''),
            (let n = (of_char c :: nat) mod 16 in if n < 10 then char_of (48 + n) else char_of (87 + n))]
      else [c])"

definition quote :: "string \<Rightarrow> string" where
  "quote s = [CHR 0x22] @ concat (map escape_char s) @ [CHR 0x22]"

fun join :: "string \<Rightarrow> string list \<Rightarrow> string" where
  "join sep [] = []"
| "join sep [x] = x"
| "join sep (x # y # ys) = x @ sep @ join sep (y # ys)"

primrec stringify :: "js \<Rightarrow> string option" where
  "stringify JUndefined = None"
| "stringify JNull = Some ''null''"
| "stringify (JBool b) = Some (if b then ''true'' else ''false'')"
| "stringify (JNum i) = Some (decimal_int i)"
| "stringify (JStr s) = Some (quote s)"
| "stringify (JArr xs) =
     Some (''['' @ join '','' (map (\<lambda>v. case v of None \<Rightarrow> ''null'' | Some s \<Rightarrow> s) (map stringify xs)) @ '']'')"
| "stringify (JObj kvs) =
     Some (''{'' @ join '',''
             (List.map_filter (\<lambda>(k, v). map_option (\<lambda>s. quote k @ '':'' @ s) v)
                (map (map_prod id stringify) kvs)) @ ''}'')"

subsection \<open>The queuing service's \<^verbatim>\<open>SendMessage\<close>\<close>







subsection \<open>The integrations as the stack declares them\<close>

record integration_response =
  statusCode :: string
  selectionPattern :: "string option"
  responseTemplates :: "(string \<times> string) list"

text \<open>
  What the gateway does with a request whose content type has no request template:
  pass the payload on as it is (\<open>WHEN_NO_MATCH\<close>), pass it on only when the integration
  has no template at all (\<open>WHEN_NO_TEMPLATES\<close>), or refuse the request (\<open>NEVER\<close>).
\<close>

datatype passthrough_behavior = WHEN_NO_MATCH | WHEN_NO_TEMPLATES | NEVER

text \<open>
  \<open>integration_queue\<close> is the queue of
  \<^verbatim>\<open>path: `${cdk.Aws.ACCOUNT_ID}/${queue1.queueName}`\<close>. \<open>passthroughBehavior\<close> is \<open>None\<close> for
  an integration whose options leave it out.
\<close>

record aws_integration =
  service :: string
  integration_queue :: sqs_queue
  integrationHttpMethod :: string
  requestParameters :: "(string \<times> string) list"
  requestTemplates :: "(string \<times> string) list"
  integrationResponses :: "integration_response list"
  passthroughBehavior :: "passthrough_behavior option"

text \<open>The request template of lines 164 and 190, the same text in both integrations.\<close>

definition request_template :: string where
  "request_template =
     ''Action=SendMessage&MessageBody=$util.urlEncode($input.body)'' @
     ''&MessageAttributes.1.Name=Source'' @
     ''&MessageAttributes.1.Value.StringValue=API-Gateway'' @
     ''&MessageAttributes.1.Value.DataType=String'' @
     ''&MessageAttributes.2.Name=RequestId'' @
     ''&MessageAttributes.2.Value.StringValue=$context.requestId'' @
     ''&MessageAttributes.2.Value.DataType=String''"

text \<open>
  The response template of lines 170 to 173 and 196 to 199:
  \<^verbatim>\<open>JSON.stringify({ message: ..., requestId: '$context.requestId' })\<close>.
\<close>

definition response_template :: string where
  "response_template =
     the (stringify (JObj [(''message'', JStr ''Message sent to queue successfully''),
                           (''requestId'', JStr ''$context.requestId'')]))"

definition sqs_integration :: "sqs_queue \<Rightarrow> aws_integration" where
  "sqs_integration q =
     \<lparr>service = ''sqs'',
      integration_queue = q,
      integrationHttpMethod = ''POST'',
      requestParameters =
        [(''integration.request.header.Content-Type'',
          [CHR 0x27] @ ''application/x-www-form-urlencoded'' @ [CHR 0x27])],
      requestTemplates = [(''application/json'', request_template)],
      integrationResponses =
        [\<lparr>statusCode = ''200'', selectionPattern = None,
          responseTemplates = [(''application/json'', response_template)]\<rparr>],
      passthroughBehavior = None\<rparr>"

definition sqsIntegration1 :: aws_integration where
  "sqsIntegration1 = sqs_integration queue1"

definition sqsIntegration2 :: aws_integration where
  "sqsIntegration2 = sqs_integration queue2"

text \<open>
  \<^verbatim>\<open>api.addResource(...)\<close> and \<^verbatim>\<open>addMethod('POST', integration, { methodResponses })\<close>.
\<close>

record api_method =
  httpMethod :: string
  resource_path :: string
  integration :: aws_integration
  methodResponses :: "string list"

definition api_methods :: "api_method list" where
  "api_methods =
     [\<lparr>httpMethod = ''POST'', resource_path = ''/api/sample-lambda-1'',
       integration = sqsIntegration1, methodResponses = [''200'']\<rparr>,
      \<lparr>httpMethod = ''POST'', resource_path = ''/api/sample-lambda-2'',
       integration = sqsIntegration2, methodResponses = [''200'']\<rparr>]"

subsection \<open>A call of the endpoint\<close>

record api_request =
  request_method :: string
  request_path :: string
  content_type :: string
  payload :: string
  requestId :: string

definition find_method :: "api_request \<Rightarrow> api_method option" where
  "find_method rq =
     find (\<lambda>m. httpMethod m = request_method rq \<and> resource_path m = request_path rq) api_methods"

definition context_of :: "api_request \<Rightarrow> template_context" where
  "context_of rq = \<lparr>input_body = payload rq, context_requestId = requestId rq\<rparr>"



text \<open>
  The answer to the caller. The gateway takes the first integration response whose
  \<open>selectionPattern\<close> matches the status the backend answered with, and the one without
  a pattern when none matches; \<open>matches\<close> is the gateway's pattern matching. The status
  must be one of the method responses.
\<close>

definition select_response ::
  "(string \<Rightarrow> string \<Rightarrow> bool) \<Rightarrow> integration_response list \<Rightarrow> string \<Rightarrow> integration_response option" where
  "select_response matches rs backend_status =
     (case find (\<lambda>r. case selectionPattern r of Some p \<Rightarrow> matches p backend_status | None \<Rightarrow> False) rs of
        Some r \<Rightarrow> Some r
      | None \<Rightarrow> find (\<lambda>r. selectionPattern r = None) rs)"

record api_response =
  response_status :: string
  response_body :: string

definition respond :: "(string \<Rightarrow> string \<Rightarrow> bool) \<Rightarrow> api_request \<Rightarrow> string \<Rightarrow> api_response option" where
  "respond matches rq backend_status =
     (case find_method rq of
        None \<Rightarrow> None
      | Some m \<Rightarrow>
          (case select_response matches (integrationResponses (integration m)) backend_status of
             None \<Rightarrow> None
           | Some ir \<Rightarrow>
               if statusCode ir \<in> set (methodResponses m)
               then map_option
                      (\<lambda>t. \<lparr>response_status = statusCode ir,
                            response_body = render (context_of rq) t\<rparr>)
                      (map_of (responseTemplates ir) ''application/json'')
               else None))"

subsection \<open>Sample requests\<close>

definition hello_request :: api_request where
  "hello_request =
     \<lparr>request_method = ''POST'', request_path = ''/api/sample-lambda-2'',
      content_type = ''application/json'', payload = hello_body,
      requestId = ''0f1e2d3c-4b5a-6978-8796-a5b4c3d2e1f0''\<rparr>"


section \<open>Properties of the batch consumer\<close>

lemma process_records_outcomes:
  "fst (process_records rt rs (acc, t)) = acc @ outcomes rt t rs"
  by (induction rs arbitrary: acc t) (auto split: sum.splits)

lemma length_outcomes: "length (outcomes rt t rs) = length rs"
  by (induction rs arbitrary: t) (auto split: sum.splits)

lemma try_block_Inl: "try_block rt t r = Inl m \<longleftrightarrow> json_parse rt (body r) = Inl m"
  by (auto simp: try_block_def split: sum.splits)

lemma fails_parse: "fails rt r = isl (json_parse rt (body r))"
  by (simp add: fails_def try_block_def split: sum.splits)

lemma try_block_Inr:
  "try_block rt t r = Inr (pd, t') \<Longrightarrow>
     \<exists>v. json_parse rt (body r) = Inr v \<and> t' = t + 2 \<and>
         get_prop pd ''messageId'' = JStr (messageId r) \<and>
         get_prop pd ''data'' = v \<and>
         get_prop pd ''error'' = JUndefined \<and>
         get_prop pd ''itemIdentifier'' = JUndefined"
  by (auto simp: try_block_def split: sum.splits)

lemma get_prop_failure_entry:
  "get_prop (failure_entry r m) ''error'' = JStr m"
  "get_prop (failure_entry r m) ''itemIdentifier'' = JStr (messageId r)"
  by (simp_all add: failure_entry_def)

lemma nth_outcomes_failed:
  "i < length rs \<Longrightarrow> json_parse rt (body (rs ! i)) = Inl m \<Longrightarrow>
     outcomes rt t rs ! i = failure_entry (rs ! i) m"
proof (induction rs arbitrary: t i)
  case Nil
  then show ?case by simp
next
  case (Cons r rs)
  show ?case
  proof (cases i)
    case 0
    with Cons.prems show ?thesis
      by (auto simp: try_block_Inl split: sum.splits dest: try_block_Inr)
  next
    case (Suc j)
    with Cons.prems have "j < length rs" "json_parse rt (body (rs ! j)) = Inl m" by simp_all
    from Cons.IH [OF this] Suc show ?thesis
      by (auto split: sum.splits)
  qed
qed

lemma nth_outcomes_processed:
  "i < length rs \<Longrightarrow> json_parse rt (body (rs ! i)) = Inr v \<Longrightarrow>
     get_prop (outcomes rt t rs ! i) ''messageId'' = JStr (messageId (rs ! i)) \<and>
     get_prop (outcomes rt t rs ! i) ''data'' = v \<and>
     get_prop (outcomes rt t rs ! i) ''error'' = JUndefined"
proof (induction rs arbitrary: t i)
  case Nil
  then show ?case by simp
next
  case (Cons r rs)
  show ?case
  proof (cases i)
    case 0
    with Cons.prems show ?thesis
      by (auto simp: try_block_Inl split: sum.splits dest: try_block_Inr)
  next
    case (Suc j)
    with Cons.prems have "j < length rs" "json_parse rt (body (rs ! j)) = Inr v" by simp_all
    from Cons.IH [OF this] Suc show ?thesis
      by (auto split: sum.splits)
  qed
qed

lemma filter_outcomes:
  assumes "\<forall>b m. json_parse rt b = Inl m \<longrightarrow> m \<noteq> []"
  shows "filter (\<lambda>result. truthy (get_prop result ''error'')) (outcomes rt t rs) =
           map (\<lambda>r. failure_entry r (projl (json_parse rt (body r)))) (filter (fails rt) rs)"
proof (induction rs arbitrary: t)
  case Nil
  then show ?case by simp
next
  case (Cons r rs)
  show ?case
  proof (cases "try_block rt t r")
    case (Inl m)
    then have p: "json_parse rt (body r) = Inl m" by (simp add: try_block_Inl)
    with assms have "m \<noteq> []" by blast
    with Inl p Cons.IH show ?thesis
      by (simp add: fails_parse get_prop_failure_entry)
  next
    case (Inr x)
    obtain pd t' where x: "x = (pd, t')" by (cases x)
    from try_block_Inr [OF Inr [unfolded x]] Inr x Cons.IH show ?thesis
      by (auto simp: fails_parse)
  qed
qed

lemma filter_outcomes_success:
  assumes "\<forall>r \<in> set rs. \<not> fails rt r"
  shows "filter (\<lambda>result. truthy (get_prop result ''error'')) (outcomes rt t rs) = []"
  using assms
proof (induction rs arbitrary: t)
  case Nil
  then show ?case by simp
next
  case (Cons r rs)
  show ?case
  proof (cases "try_block rt t r")
    case (Inl m)
    with Cons.prems show ?thesis by (simp add: try_block_Inl fails_parse)
  next
    case (Inr x)
    obtain pd t' where x: "x = (pd, t')" by (cases x)
    from try_block_Inr [OF Inr [unfolded x]] Inr x Cons show ?thesis
      by auto
  qed
qed


lemma handler_unfold:
  "Records ev = Some recs \<Longrightarrow>
   handler rt ev =
     (let results = outcomes rt 0 recs;
          failures = filter (\<lambda>result. truthy (get_prop result ''error'')) results
      in if failures \<noteq> []
         then Inr (JObj [(''batchItemFailures'',
                 JArr (map (\<lambda>failure. JObj [(''itemIdentifier'', get_prop failure ''itemIdentifier'')])
                        failures))])
         else Inr (JObj [(''statusCode'', JNum 200),
                 (''processedCount'', JNum (int (length recs))),
                 (''results'', JArr results)]))"
  by (simp add: handler_def process_records_outcomes length_outcomes Let_def)

text \<open>
  Claim C1. Of a batch of \<open>N\<close> records of which exactly \<open>K\<close> fail transformation, the
  handler's answer reports the \<open>messageId\<close>s of those \<open>K\<close> records, in the order of the
  batch, and nothing else: the reported list has \<open>K\<close> entries, and where the identifiers
  of the batch are pairwise different, as the queue assigns them, no record that was
  transformed is reported. The messages of the errors thrown by \<^verbatim>\<open>JSON.parse\<close> are
  not empty, as in every JavaScript engine: the \<^verbatim>\<open>filter\<close> of line 51 tests the message
  for truthiness.
\<close>

theorem handler_reports_exactly_the_failed:
  assumes recs: "Records ev = Some recs"
    and msgs: "\<forall>b m. json_parse rt b = Inl m \<longrightarrow> m \<noteq> []"
    and K: "length (filter (fails rt) recs) = K"
  shows "\<exists>resp. handler rt ev = Inr resp \<and>
           reported_failures resp = map (\<lambda>r. JStr (messageId r)) (filter (fails rt) recs) \<and>
           length (reported_failures resp) = K \<and>
           (distinct (map messageId recs) \<longrightarrow>
              (\<forall>r \<in> set recs. \<not> fails rt r \<longrightarrow> JStr (messageId r) \<notin> set (reported_failures resp)))"
proof -
  let ?failed = "filter (fails rt) recs"
  let ?ids = "map (\<lambda>r. JStr (messageId r)) ?failed"
  have f: "filter (\<lambda>result. truthy (get_prop result ''error'')) (outcomes rt 0 recs) =
             map (\<lambda>r. failure_entry r (projl (json_parse rt (body r)))) ?failed"
    by (rule filter_outcomes [OF msgs])
  obtain resp where h: "handler rt ev = Inr resp" and rep: "reported_failures resp = ?ids"
  proof (cases "?failed = []")
    case True
    with f have "handler rt ev = Inr (JObj [(''statusCode'', JNum 200),
                 (''processedCount'', JNum (int (length recs))),
                 (''results'', JArr (outcomes rt 0 recs))])"
      by (simp add: handler_unfold [OF recs] Let_def)
    moreover have "reported_failures (JObj [(''statusCode'', JNum 200),
                 (''processedCount'', JNum (int (length recs))),
                 (''results'', JArr (outcomes rt 0 recs))]) = ?ids"
      using True by (simp add: reported_failures_def)
    ultimately show ?thesis using that by blast
  next
    case False
    let ?resp = "JObj [(''batchItemFailures'',
                 JArr (map (\<lambda>failure. JObj [(''itemIdentifier'', get_prop failure ''itemIdentifier'')])
                        (map (\<lambda>r. failure_entry r (projl (json_parse rt (body r)))) ?failed)))]"
    from False f have "handler rt ev = Inr ?resp"
      by (simp add: handler_unfold [OF recs] Let_def)
    moreover have "reported_failures ?resp = ?ids"
      by (simp add: reported_failures_def get_prop_failure_entry comp_def)
    ultimately show ?thesis using that by blast
  qed
  have others: "JStr (messageId r) \<notin> set ?ids"
    if d: "distinct (map messageId recs)" and r: "r \<in> set recs" and ok: "\<not> fails rt r" for r
  proof
    assume "JStr (messageId r) \<in> set ?ids"
    then obtain r' where r': "r' \<in> set recs" "fails rt r'" "messageId r' = messageId r"
      by auto
    from d r r'(1,3) have "r' = r"
      by (meson distinct_map inj_on_def)
    with r'(2) ok show False by simp
  qed
  from h rep K others show ?thesis by auto
qed

text \<open>The batch of three with a malformed second body: one identifier is reported.\<close>

theorem handler_reports_exactly_the_failed_witness:
  "handler demo_runtime \<lparr>Records = Some demo_batch\<rparr> =
     Inr (JObj [(''batchItemFailures'', JArr [JObj [(''itemIdentifier'', JStr ''m-0002'')]])]) \<and>
   reported_failures (projr (handler demo_runtime \<lparr>Records = Some demo_batch\<rparr>)) = [JStr ''m-0002''] \<and>
   length (filter (fails demo_runtime) demo_batch) = 1 \<and>
   distinct (map messageId demo_batch) \<and>
   JStr ''m-0001'' \<notin> set (reported_failures (projr (handler demo_runtime \<lparr>Records = Some demo_batch\<rparr>))) \<and>
   JStr ''m-0003'' \<notin> set (reported_failures (projr (handler demo_runtime \<lparr>Records = Some demo_batch\<rparr>)))"
proof -
  have msgs: "\<forall>b m. json_parse demo_runtime b = Inl m \<longrightarrow> m \<noteq> []"
    by (simp add: demo_runtime_def)
  have K: "length (filter (fails demo_runtime) demo_batch) = 1"
    by (simp add: fails_parse demo_runtime_def demo_batch_def demo_record_def hello_body_def)
  have d: "distinct (map messageId demo_batch)"
    by (simp add: demo_batch_def demo_record_def)
  have run: "handler demo_runtime \<lparr>Records = Some demo_batch\<rparr> =
     Inr (JObj [(''batchItemFailures'', JArr [JObj [(''itemIdentifier'', JStr ''m-0002'')]])])"
    by (simp add: handler_def demo_runtime_def demo_batch_def demo_record_def hello_body_def
        try_block_def failure_entry_def)
  from handler_reports_exactly_the_failed [of "\<lparr>Records = Some demo_batch\<rparr>" demo_batch demo_runtime 1, OF _ msgs K]
  obtain resp where "handler demo_runtime \<lparr>Records = Some demo_batch\<rparr> = Inr resp"
    and "reported_failures resp = map (\<lambda>r. JStr (messageId r)) (filter (fails demo_runtime) demo_batch)"
    and "\<forall>r \<in> set demo_batch. \<not> fails demo_runtime r \<longrightarrow> JStr (messageId r) \<notin> set (reported_failures resp)"
    using d by auto
  with run K d show ?thesis
    by (simp add: fails_parse demo_runtime_def demo_batch_def demo_record_def hello_body_def)
qed


text \<open>
  What the hypothesis on the messages is for: line 51 keeps the entries whose
  \<^verbatim>\<open>error\<close> is truthy, and an empty message is not. The errors of \<^verbatim>\<open>JSON.parse\<close> always
  carry a message, so this run is one of the model only.
\<close>

lemma failure_with_empty_message_is_dropped:
  "handler silent_runtime \<lparr>Records = Some [demo_record ''m-0001'' ''{oops'']\<rparr> =
     Inr (JObj [(''statusCode'', JNum 200), (''processedCount'', JNum 1),
                (''results'', JArr [JObj [(''itemIdentifier'', JStr ''m-0001''),
                                          (''error'', JStr [])]])])"
  by (simp add: handler_def silent_runtime_def demo_runtime_def demo_record_def
      try_block_def failure_entry_def)

lemma nth_outcomes_exact:
  "i < length rs \<Longrightarrow>
     \<exists>t'. (\<forall>m. try_block rt t' (rs ! i) = Inl m \<longrightarrow> outcomes rt t rs ! i = failure_entry (rs ! i) m) \<and>
          (\<forall>pd t''. try_block rt t' (rs ! i) = Inr (pd, t'') \<longrightarrow> outcomes rt t rs ! i = pd)"
proof (induction rs arbitrary: t i)
  case Nil
  then show ?case by simp
next
  case (Cons r rs)
  show ?case
  proof (cases i)
    case 0
    show ?thesis unfolding 0 by (intro exI [of _ t]) simp
  next
    case (Suc j)
    with Cons.prems have j: "j < length rs" by simp
    show ?thesis
    proof (cases "try_block rt t r")
      case (Inl m)
      with Cons.IH [OF j, of t] Suc show ?thesis by simp
    next
      case (Inr x)
      obtain pd t1 where "x = (pd, t1)" by (cases x)
      with Inr Cons.IH [OF j, of t1] Suc show ?thesis by simp
    qed
  qed
qed

text \<open>
  Claim C2. An error thrown while one record is processed (the body does not parse) puts
  the failure entry of that record, with its \<open>messageId\<close>, at the record's position of
  \<^verbatim>\<open>results\<close>, and the loop goes on: \<^verbatim>\<open>results\<close> has one entry for every record of the
  batch, every record that parses has its processed data at its position whatever
  happened to its siblings, and the handler returns a value instead of throwing.
\<close>

theorem record_failure_is_local:
  assumes recs: "Records ev = Some recs"
  shows "(\<exists>resp. handler rt ev = Inr resp) \<and>
         length (fst (process_records rt recs ([], 0))) = length recs \<and>
         (\<forall>i < length recs.
            (\<forall>m. json_parse rt (body (recs ! i)) = Inl m \<longrightarrow>
                   fst (process_records rt recs ([], 0)) ! i = failure_entry (recs ! i) m) \<and>
            (\<forall>v. json_parse rt (body (recs ! i)) = Inr v \<longrightarrow>
                get_prop (fst (process_records rt recs ([], 0)) ! i) ''messageId'' = JStr (messageId (recs ! i)) \<and>
                get_prop (fst (process_records rt recs ([], 0)) ! i) ''data'' = v \<and>
                get_prop (fst (process_records rt recs ([], 0)) ! i) ''error'' = JUndefined))"
proof -
  have "\<exists>resp. handler rt ev = Inr resp"
    by (simp add: handler_unfold [OF recs] Let_def)
  moreover have "length (fst (process_records rt recs ([], 0))) = length recs"
    by (simp add: process_records_outcomes length_outcomes)
  moreover have "\<forall>i < length recs.
            (\<forall>m. json_parse rt (body (recs ! i)) = Inl m \<longrightarrow>
                   fst (process_records rt recs ([], 0)) ! i = failure_entry (recs ! i) m) \<and>
            (\<forall>v. json_parse rt (body (recs ! i)) = Inr v \<longrightarrow>
                get_prop (fst (process_records rt recs ([], 0)) ! i) ''messageId'' = JStr (messageId (recs ! i)) \<and>
                get_prop (fst (process_records rt recs ([], 0)) ! i) ''data'' = v \<and>
                get_prop (fst (process_records rt recs ([], 0)) ! i) ''error'' = JUndefined)"
    using nth_outcomes_failed [of _ recs rt _ 0] nth_outcomes_processed [of _ recs rt _ 0]
    by (simp add: process_records_outcomes)
  ultimately show ?thesis by blast
qed

text \<open>In the sample batch the second record fails, the third is processed all the same.\<close>

theorem record_failure_is_local_witness:
  "(\<exists>resp. handler demo_runtime \<lparr>Records = Some demo_batch\<rparr> = Inr resp) \<and>
   length (fst (process_records demo_runtime demo_batch ([], 0))) = 3 \<and>
   json_parse demo_runtime (body (demo_batch ! 1)) = Inl ''Unexpected token in JSON'' \<and>
   fst (process_records demo_runtime demo_batch ([], 0)) ! 1 =
     JObj [(''itemIdentifier'', JStr ''m-0002''), (''error'', JStr ''Unexpected token in JSON'')] \<and>
   get_prop (fst (process_records demo_runtime demo_batch ([], 0)) ! 2) ''messageId'' = JStr ''m-0003'' \<and>
   get_prop (fst (process_records demo_runtime demo_batch ([], 0)) ! 2) ''error'' = JUndefined"
proof -
  have p1: "json_parse demo_runtime (body (demo_batch ! 1)) = Inl ''Unexpected token in JSON''"
    by (simp add: demo_runtime_def demo_batch_def demo_record_def hello_body_def)
  have p2: "json_parse demo_runtime (body (demo_batch ! 2)) = Inr (JObj [(''message'', JStr ''Hello World'')])"
    by (simp add: demo_runtime_def demo_batch_def demo_record_def hello_body_def)
  have n: "length demo_batch = 3" "messageId (demo_batch ! 1) = ''m-0002''"
    "messageId (demo_batch ! 2) = ''m-0003''"
    by (simp_all add: demo_batch_def demo_record_def)
  have i: "1 < length demo_batch" "2 < length demo_batch"
    by (simp_all add: n)
  have recs: "Records \<lparr>Records = Some demo_batch\<rparr> = Some demo_batch"
    by simp
  note th = record_failure_is_local [OF recs, of demo_runtime]
  from th have a: "\<exists>resp. handler demo_runtime \<lparr>Records = Some demo_batch\<rparr> = Inr resp"
    by blast
  from th have b: "length (fst (process_records demo_runtime demo_batch ([], 0))) = 3"
    by (simp only: n)
  from th i(1) p1 have "fst (process_records demo_runtime demo_batch ([], 0)) ! 1 =
      failure_entry (demo_batch ! 1) ''Unexpected token in JSON''"
    by blast
  then have d1: "fst (process_records demo_runtime demo_batch ([], 0)) ! 1 =
     JObj [(''itemIdentifier'', JStr ''m-0002''), (''error'', JStr ''Unexpected token in JSON'')]"
    by (simp only: failure_entry_def n)
  from th i(2) p2 have "get_prop (fst (process_records demo_runtime demo_batch ([], 0)) ! 2) ''messageId'' =
       JStr (messageId (demo_batch ! 2)) \<and>
     get_prop (fst (process_records demo_runtime demo_batch ([], 0)) ! 2) ''error'' = JUndefined"
    by blast
  then have d2: "get_prop (fst (process_records demo_runtime demo_batch ([], 0)) ! 2) ''messageId'' = JStr ''m-0003'' \<and>
   get_prop (fst (process_records demo_runtime demo_batch ([], 0)) ! 2) ''error'' = JUndefined"
    by (simp only: n)
  from a b p1 d1 d2 show ?thesis by blast
qed

text \<open>
  Claim C3. When no record of the batch throws, the handler returns the object with
  \<^verbatim>\<open>statusCode\<close> 200, the count and the results, which has no \<^verbatim>\<open>batchItemFailures\<close>
  property; it reports no failed identifier.
\<close>

theorem all_success_returns_status_200:
  assumes recs: "Records ev = Some recs"
    and ok: "\<forall>r \<in> set recs. \<not> fails rt r"
  shows "handler rt ev =
           Inr (JObj [(''statusCode'', JNum 200),
                      (''processedCount'', JNum (int (length recs))),
                      (''results'', JArr (fst (process_records rt recs ([], 0))))]) \<and>
         get_prop (projr (handler rt ev)) ''statusCode'' = JNum 200 \<and>
         get_prop (projr (handler rt ev)) ''batchItemFailures'' = JUndefined \<and>
         reported_failures (projr (handler rt ev)) = []"
  using filter_outcomes_success [OF ok, of 0]
  by (simp add: handler_unfold [OF recs] Let_def process_records_outcomes reported_failures_def)

text \<open>The scenario of the specification: a batch of the one message \<^verbatim>\<open>{"message":"Hello World"}\<close>.\<close>

theorem all_success_returns_status_200_witness:
  "get_prop (projr (handler demo_runtime \<lparr>Records = Some [demo_record ''m-0001'' hello_body]\<rparr>))
     ''statusCode'' = JNum 200 \<and>
   get_prop (projr (handler demo_runtime \<lparr>Records = Some [demo_record ''m-0001'' hello_body]\<rparr>))
     ''batchItemFailures'' = JUndefined \<and>
   reported_failures (projr (handler demo_runtime \<lparr>Records = Some [demo_record ''m-0001'' hello_body]\<rparr>)) = []"
proof -
  have ok: "\<forall>r \<in> set [demo_record ''m-0001'' hello_body]. \<not> fails demo_runtime r"
    by (simp add: fails_parse demo_runtime_def demo_record_def)
  have recs: "Records \<lparr>Records = Some [demo_record ''m-0001'' hello_body]\<rparr> =
                Some [demo_record ''m-0001'' hello_body]"
    by simp
  from all_success_returns_status_200 [OF recs ok]
  show ?thesis by blast
qed

text \<open>
  Claim C9. The loop appends exactly one entry to \<^verbatim>\<open>results\<close> for every record: the
  object built by the \<^verbatim>\<open>try\<close> block when it returns, the failure entry when it throws.
  So an answer without \<^verbatim>\<open>batchItemFailures\<close> (the return of line 60) carries
  \<^verbatim>\<open>processedCount\<close> equal to the number of records delivered.
\<close>

theorem one_result_per_record:
  assumes recs: "Records ev = Some recs"
  shows "length (fst (process_records rt recs ([], 0))) = length recs \<and>
         (\<forall>i < length recs. \<exists>t.
            (\<forall>m. try_block rt t (recs ! i) = Inl m \<longrightarrow>
                   fst (process_records rt recs ([], 0)) ! i = failure_entry (recs ! i) m) \<and>
            (\<forall>pd t'. try_block rt t (recs ! i) = Inr (pd, t') \<longrightarrow>
                   fst (process_records rt recs ([], 0)) ! i = pd)) \<and>
         (\<forall>resp. handler rt ev = Inr resp \<and> get_prop resp ''batchItemFailures'' = JUndefined \<longrightarrow>
            get_prop resp ''statusCode'' = JNum 200 \<and>
            get_prop resp ''processedCount'' = JNum (int (length recs)) \<and>
            get_prop resp ''results'' = JArr (fst (process_records rt recs ([], 0))))"
proof -
  have "length (fst (process_records rt recs ([], 0))) = length recs"
    by (simp add: process_records_outcomes length_outcomes)
  moreover have "\<forall>i < length recs. \<exists>t.
            (\<forall>m. try_block rt t (recs ! i) = Inl m \<longrightarrow>
                   fst (process_records rt recs ([], 0)) ! i = failure_entry (recs ! i) m) \<and>
            (\<forall>pd t'. try_block rt t (recs ! i) = Inr (pd, t') \<longrightarrow>
                   fst (process_records rt recs ([], 0)) ! i = pd)"
    using nth_outcomes_exact [of _ recs rt 0] by (simp add: process_records_outcomes)
  moreover have "\<forall>resp. handler rt ev = Inr resp \<and> get_prop resp ''batchItemFailures'' = JUndefined \<longrightarrow>
            get_prop resp ''statusCode'' = JNum 200 \<and>
            get_prop resp ''processedCount'' = JNum (int (length recs)) \<and>
            get_prop resp ''results'' = JArr (fst (process_records rt recs ([], 0)))"
    by (auto simp: handler_unfold [OF recs] Let_def process_records_outcomes split: if_splits)
  ultimately show ?thesis by blast
qed

text \<open>Four deliveries of a well-formed body: the count is four.\<close>

theorem one_result_per_record_witness:
  "length (fst (process_records demo_runtime (replicate 4 (demo_record ''m-0001'' hello_body)) ([], 0))) = 4 \<and>
   get_prop (projr (handler demo_runtime \<lparr>Records = Some (replicate 4 (demo_record ''m-0001'' hello_body))\<rparr>))
     ''processedCount'' = JNum 4"
proof -
  let ?recs = "replicate 4 (demo_record ''m-0001'' hello_body)"
  have recs: "Records \<lparr>Records = Some ?recs\<rparr> = Some ?recs"
    by simp
  have ok: "\<forall>r \<in> set ?recs. \<not> fails demo_runtime r"
    by (simp add: fails_parse demo_runtime_def demo_record_def)
  have "filter (\<lambda>result. truthy (get_prop result ''error'')) (outcomes demo_runtime 0 ?recs) = []"
    by (rule filter_outcomes_success [OF ok])
  then have h: "handler demo_runtime \<lparr>Records = Some ?recs\<rparr> =
          Inr (JObj [(''statusCode'', JNum 200), (''processedCount'', JNum 4),
                     (''results'', JArr (outcomes demo_runtime 0 ?recs))])"
    by (simp add: handler_unfold [OF recs] Let_def)
  from one_result_per_record [OF recs, of demo_runtime] h
  show ?thesis by simp
qed

section \<open>Properties of the stack\<close>

lemma primary_queues_eq: "primary_queues = [queue1, queue2]"
  by (simp add: primary_queues_def event_sources_def)

text \<open>
  Claim C4. Every primary queue of the stack has a visibility timeout of 60 seconds and
  the consumer attached to it a timeout of 30 seconds: the first is twice the second.
\<close>

theorem visibility_timeout_is_twice_consumer_timeout:
  "list_all (\<lambda>es. map_option toSeconds (visibilityTimeout (source_queue es)) = Some 60 \<and>
                  map_option toSeconds (timeout (consumer es)) = Some 30 \<and>
                  map_option toSeconds (visibilityTimeout (source_queue es)) =
                    map_option (\<lambda>t. 2 * toSeconds t) (timeout (consumer es)))
     event_sources \<and>
   primary_queues = [queue1, queue2] \<and>
   map consumer event_sources = [lambdaFunction1, lambdaFunction2]"
  by (simp add: event_sources_def primary_queues_def queue1_def queue2_def
      lambdaFunction1_def lambdaFunction2_def)

section \<open>Properties of the queue configuration\<close>

lemma step_quarantined:
  "deadLetterQueue q = Some (dl, n) \<Longrightarrow> quarantined n m \<Longrightarrow> step d q a m = Some m' \<Longrightarrow>
     quarantined n m'"
  by (cases a) (auto simp: quarantined_def split: if_splits)

lemma run_quarantined:
  "deadLetterQueue q = Some (dl, n) \<Longrightarrow> quarantined n m \<Longrightarrow> run d q as m = Some m' \<Longrightarrow>
     quarantined n m'"
proof (induction as arbitrary: m)
  case Nil
  then show ?case by simp
next
  case (Cons a as)
  then show ?case
    by (auto split: option.splits dest: step_quarantined)
qed

lemma quarantined_not_delivered:
  "deadLetterQueue q = Some (dl, n) \<Longrightarrow> quarantined n m \<Longrightarrow>
     place m \<noteq> InFlight \<and> step d q Deliver m = None"
  by (auto simp: quarantined_def)

lemma only_redrive_moves_to_dead_letter:
  "step d q a m = Some m' \<Longrightarrow> place m' = DeadLetter \<Longrightarrow> place m \<noteq> DeadLetter \<Longrightarrow> a = Redrive"
  by (cases a) (auto split: if_splits option.splits)

lemma run_append:
  "run d q (as @ bs) m = (case run d q as m of None \<Rightarrow> None | Some m' \<Rightarrow> run d q bs m')"
  by (induction as arbitrary: m) (auto split: option.splits)

lemma failed_deliveries_snoc:
  "failed_deliveries (fs @ [f]) = failed_deliveries fs @ [Deliver, f]"
  by (simp add: failed_deliveries_def)

lemma run_failed_deliveries:
  assumes q: "deadLetterQueue q = Some (dl, n)"
  shows "list_all is_failure fs \<Longrightarrow> length fs \<le> n \<Longrightarrow>
     run d q (failed_deliveries fs) enqueued =
       Some \<lparr>place = Visible, receiveCount = length fs, age = 0\<rparr>"
proof (induction fs rule: rev_induct)
  case Nil
  show ?case by (simp add: failed_deliveries_def enqueued_def)
next
  case (snoc f fs)
  then have "run d q (failed_deliveries fs) enqueued =
       Some \<lparr>place = Visible, receiveCount = length fs, age = 0\<rparr>"
    and f: "is_failure f" and lt: "length fs < n"
    by simp_all
  moreover from f lt q
  have "run d q [Deliver, f] \<lparr>place = Visible, receiveCount = length fs, age = 0\<rparr> =
       Some \<lparr>place = Visible, receiveCount = Suc (length fs), age = 0\<rparr>"
    by (auto simp: is_failure_def)
  ultimately show ?case
    by (simp add: failed_deliveries_snoc run_append)
qed

lemma primary_queue_threshold:
  "q \<in> set primary_queues \<Longrightarrow> \<exists>dl. deadLetterQueue q = Some (dl, 3) \<and> dl \<in> set dead_letter_queues"
  by (auto simp: primary_queues_eq dead_letter_queues_def stack_queues_def List.map_filter_simps
      queue1_def queue2_def dlq1_def dlq2_def)

text \<open>
  Claim C5. For each primary queue of the stack, whose threshold is 3: after two
  deliveries that failed (or fewer) the message is visible, is not moved, and the next
  delivery to the consumer is enabled; after three it cannot be delivered, the redrive
  to the dead-letter queue is enabled, and no run from there ever puts it in flight or
  enables a delivery again. The redrive is an action of the queuing layer, and it is the
  only action that takes a message to the dead-letter queue.
\<close>

theorem threshold_redelivery_and_dead_letter:
  assumes "q \<in> set primary_queues" and fs: "list_all is_failure fs"
  shows "map_option snd (deadLetterQueue q) = Some 3 \<and>
     (length fs < 3 \<longrightarrow>
        (\<exists>m. run d q (failed_deliveries fs) enqueued = Some m \<and> place m = Visible \<and>
             step d q Redrive m = None \<and>
             (\<exists>m'. step d q Deliver m = Some m' \<and> place m' = InFlight))) \<and>
     (length fs = 3 \<longrightarrow>
        (\<exists>m. run d q (failed_deliveries fs) enqueued = Some m \<and>
             step d q Deliver m = None \<and>
             (\<exists>m'. step d q Redrive m = Some m' \<and> place m' = DeadLetter) \<and>
             (\<forall>as m'. run d q as m = Some m' \<longrightarrow>
                place m' \<noteq> InFlight \<and> step d q Deliver m' = None))) \<and>
     performed_by Redrive = QueueLayer \<and>
     (\<forall>a m m'. step d q a m = Some m' \<and> place m' = DeadLetter \<and> place m \<noteq> DeadLetter \<longrightarrow>
        a = Redrive)"
proof -
  from assms(1) obtain dl where q: "deadLetterQueue q = Some (dl, 3)"
    using primary_queue_threshold by blast
  let ?m = "\<lparr>place = Visible, receiveCount = length fs, age = 0\<rparr>"
  have few: "\<exists>m. run d q (failed_deliveries fs) enqueued = Some m \<and> place m = Visible \<and>
             step d q Redrive m = None \<and>
             (\<exists>m'. step d q Deliver m = Some m' \<and> place m' = InFlight)"
    if lt: "length fs < 3"
  proof -
    from lt have "run d q (failed_deliveries fs) enqueued = Some ?m"
      by (intro run_failed_deliveries [OF q fs]) simp
    moreover from lt q have "step d q Redrive ?m = None"
      "\<exists>m'. step d q Deliver ?m = Some m' \<and> place m' = InFlight"
      by simp_all
    ultimately show ?thesis by simp
  qed
  have three: "\<exists>m. run d q (failed_deliveries fs) enqueued = Some m \<and>
             step d q Deliver m = None \<and>
             (\<exists>m'. step d q Redrive m = Some m' \<and> place m' = DeadLetter) \<and>
             (\<forall>as m'. run d q as m = Some m' \<longrightarrow>
                place m' \<noteq> InFlight \<and> step d q Deliver m' = None)"
    if eq: "length fs = 3"
  proof -
    from eq have r: "run d q (failed_deliveries fs) enqueued = Some ?m"
      by (intro run_failed_deliveries [OF q fs]) simp
    from eq q have b: "step d q Deliver ?m = None"
      "\<exists>m'. step d q Redrive ?m = Some m' \<and> place m' = DeadLetter"
      by simp_all
    from eq have qu: "quarantined 3 ?m" by (simp add: quarantined_def)
    have c: "\<forall>as m'. run d q as ?m = Some m' \<longrightarrow>
        place m' \<noteq> InFlight \<and> step d q Deliver m' = None"
      using run_quarantined [OF q qu] quarantined_not_delivered [OF q] by blast
    from r b c show ?thesis by blast
  qed
  have who: "performed_by Redrive = QueueLayer" by simp
  have only: "\<forall>a m m'. step d q a m = Some m' \<and> place m' = DeadLetter \<and> place m \<noteq> DeadLetter \<longrightarrow>
        a = Redrive"
    using only_redrive_moves_to_dead_letter by blast
  from q have "map_option snd (deadLetterQueue q) = Some 3" by simp
  with few three who only show ?thesis by blast
qed

text \<open>
  On the second queue, with a failure of each kind: a third delivery after two
  failures; after three the message is moved, and neither then nor a minute later is
  it delivered.
\<close>

theorem threshold_redelivery_and_dead_letter_witness:
  "queue2 \<in> set primary_queues \<and>
   list_all is_failure [ReportFailure, VisibilityTimeout, ReportFailure] \<and>
   run 345600 queue2 (failed_deliveries [ReportFailure, VisibilityTimeout] @ [Deliver]) enqueued =
     Some \<lparr>place = InFlight, receiveCount = 3, age = 0\<rparr> \<and>
   run 345600 queue2 (failed_deliveries [ReportFailure, VisibilityTimeout, ReportFailure]) enqueued =
     Some \<lparr>place = Visible, receiveCount = 3, age = 0\<rparr> \<and>
   step 345600 queue2 Deliver \<lparr>place = Visible, receiveCount = 3, age = 0\<rparr> = None \<and>
   run 345600 queue2 [Redrive, Elapse 60] \<lparr>place = Visible, receiveCount = 3, age = 0\<rparr> =
     Some \<lparr>place = DeadLetter, receiveCount = 3, age = 60\<rparr> \<and>
   step 345600 queue2 Deliver \<lparr>place = DeadLetter, receiveCount = 3, age = 60\<rparr> = None"
proof -
  let ?fs = "[ReportFailure, VisibilityTimeout, ReportFailure]"
  let ?m3 = "\<lparr>place = Visible, receiveCount = 3, age = 0\<rparr>"
  have q: "queue2 \<in> set primary_queues"
    by (simp add: primary_queues_eq)
  have fs: "list_all is_failure ?fs"
    by (simp add: is_failure_def)
  have dl: "deadLetterQueue queue2 = Some (dlq2, 3)"
    by (simp add: queue2_def)
  have r2: "run 345600 queue2 (failed_deliveries [ReportFailure, VisibilityTimeout] @ [Deliver]) enqueued =
     Some \<lparr>place = InFlight, receiveCount = 3, age = 0\<rparr>"
    by (simp add: failed_deliveries_def enqueued_def dl)
  have r3: "run 345600 queue2 (failed_deliveries ?fs) enqueued = Some ?m3"
    by (simp add: failed_deliveries_def enqueued_def dl)
  have r5: "run 345600 queue2 [Redrive, Elapse 60] ?m3 =
     Some \<lparr>place = DeadLetter, receiveCount = 3, age = 60\<rparr>"
    by (simp add: dl)
  from threshold_redelivery_and_dead_letter [OF q fs, of 345600] r3
  have never: "\<forall>as m'. run 345600 queue2 as ?m3 = Some m' \<longrightarrow>
      place m' \<noteq> InFlight \<and> step 345600 queue2 Deliver m' = None"
    by simp
  from never r5 have "step 345600 queue2 Deliver \<lparr>place = DeadLetter, receiveCount = 3, age = 60\<rparr> = None"
    by blast
  moreover from never have "step 345600 queue2 Deliver ?m3 = None"
    using run.simps(1) by blast
  ultimately show ?thesis
    using q fs r2 r3 r5 by blast
qed

text \<open>
  Claim C6 as stated fails: the primary queues are declared without \<open>retentionPeriod\<close>.
\<close>

theorem retention_declared_counterexample:
  "\<not> (\<forall>q \<in> set (primary_queues @ dead_letter_queues). \<exists>p. retentionPeriod q = Some p)"
  by (simp add: primary_queues_eq queue1_def)

text \<open>
  Claim C6, amended. The stack declares a retention window for the dead-letter queues
  only, 14 days: a message in a dead-letter queue is discarded once it is older, and
  not before. A primary queue is declared without one; its window is the default of
  the queuing service, and a message older than that is discarded whether it is
  visible or in flight.
\<close>

theorem retention_windows:
  assumes "q \<in> set primary_queues"
  shows "retentionPeriod q = None \<and>
         (\<exists>dl n. deadLetterQueue q = Some (dl, n) \<and> dl \<in> set dead_letter_queues \<and>
            retentionPeriod dl = Some (Days 14) \<and> retention_window d dl = 1209600 \<and>
            (\<forall>m. place m = DeadLetter \<and> 1209600 < age m \<longrightarrow>
                 step d q Expire m = Some (m\<lparr>place := Discarded\<rparr>)) \<and>
            (\<forall>m. place m = DeadLetter \<and> age m \<le> 1209600 \<longrightarrow> step d q Expire m = None)) \<and>
         (\<forall>m. (place m = Visible \<or> place m = InFlight) \<and> d < age m \<longrightarrow>
              step d q Expire m = Some (m\<lparr>place := Discarded\<rparr>))"
proof -
  from assms have "q = queue1 \<or> q = queue2"
    by (simp add: primary_queues_eq)
  then show ?thesis
    by (auto simp: queue1_def queue2_def dlq1_def dlq2_def dead_letter_queues_def
        stack_queues_def List.map_filter_simps retention_window_def)
qed

text \<open>The first queue, with a default window of four days.\<close>

theorem retention_windows_witness:
  "queue1 \<in> set primary_queues \<and> retentionPeriod queue1 = None \<and>
   retentionPeriod dlq1 = Some (Days 14) \<and> retentionPeriod dlq2 = Some (Days 14) \<and>
   step 345600 queue1 Expire \<lparr>place = DeadLetter, receiveCount = 3, age = 1209601\<rparr> =
     Some \<lparr>place = Discarded, receiveCount = 3, age = 1209601\<rparr> \<and>
   step 345600 queue1 Expire \<lparr>place = DeadLetter, receiveCount = 3, age = 1209600\<rparr> = None"
proof -
  have q: "queue1 \<in> set primary_queues"
    by (simp add: primary_queues_eq)
  have dl: "deadLetterQueue queue1 = Some (dlq1, 3)"
    by (simp add: queue1_def)
  from retention_windows [OF q, of 345600] dl
  have "retentionPeriod queue1 = None"
    and "\<forall>m. place m = DeadLetter \<and> 1209600 < age m \<longrightarrow>
                 step 345600 queue1 Expire m = Some (m\<lparr>place := Discarded\<rparr>)"
    and "\<forall>m. place m = DeadLetter \<and> age m \<le> 1209600 \<longrightarrow> step 345600 queue1 Expire m = None"
    by auto
  then show ?thesis
    using q by (simp add: dlq1_def dlq2_def)
qed

section \<open>Properties of the ingestion endpoint\<close>





















lemma find_method_cases:
  "find_method rq = Some m \<Longrightarrow>
     request_method rq = ''POST'' \<and>
     (request_path rq = ''/api/sample-lambda-1'' \<and> integration m = sqsIntegration1 \<or>
      request_path rq = ''/api/sample-lambda-2'' \<and> integration m = sqsIntegration2) \<and>
     methodResponses m = [''200'']"
  by (auto simp: find_method_def api_methods_def split: if_splits)

lemma find_method_post:
  "request_method rq = ''POST'' \<Longrightarrow>
   request_path rq = ''/api/sample-lambda-1'' \<or> request_path rq = ''/api/sample-lambda-2'' \<Longrightarrow>
   \<exists>m. find_method rq = Some m"
  by (auto simp: find_method_def api_methods_def)






lemma escape_char_plain:
  assumes "c \<noteq> CHR 0x22" "c \<noteq> CHR 0x5C" "32 \<le> (of_char c :: nat)"
  shows "escape_char c = [c]"
proof -
  have "c \<noteq> CHR 0x08" "c \<noteq> CHR 0x0C" "c \<noteq> CHR 0x0A" "c \<noteq> CHR 0x0D" "c \<noteq> CHR 0x09"
    using assms(3) by auto
  moreover have "\<not> (of_char c :: nat) < 32"
    using assms(3) by simp
  ultimately show ?thesis
    using assms(1,2) by (simp only: escape_char_def if_False)
qed

lemma escape_plain:
  "\<forall>c \<in> set s. c \<noteq> CHR 0x22 \<and> c \<noteq> CHR 0x5C \<and> 32 \<le> (of_char c :: nat) \<Longrightarrow>
     concat (map escape_char s) = s"
  by (induction s) (simp_all add: escape_char_plain)

lemma response_template_eq:
  "response_template =
     [CHR ''{'', CHR 0x22] @ ''message'' @ [CHR 0x22, CHR '':'', CHR 0x22] @
     ''Message sent to queue successfully'' @ [CHR 0x22, CHR '','', CHR 0x22] @
     ''requestId'' @ [CHR 0x22, CHR '':'', CHR 0x22] @ ''$context.requestId'' @ [CHR 0x22, CHR ''}'']"
  by (simp add: response_template_def quote_def escape_char_def List.map_filter_simps)

lemma render_response_template:
  "render ctx response_template =
     [CHR ''{'', CHR 0x22] @ ''message'' @ [CHR 0x22, CHR '':'', CHR 0x22] @
     ''Message sent to queue successfully'' @ [CHR 0x22, CHR '','', CHR 0x22] @
     ''requestId'' @ [CHR 0x22, CHR '':'', CHR 0x22] @ context_requestId ctx @ [CHR 0x22, CHR ''}'']"
  unfolding response_template_eq by simp

lemma stringify_answer:
  assumes "\<forall>c \<in> set r. c \<noteq> CHR 0x22 \<and> c \<noteq> CHR 0x5C \<and> 32 \<le> (of_char c :: nat)"
  shows "stringify (JObj [(''message'', JStr ''Message sent to queue successfully''),
                          (''requestId'', JStr r)]) =
     Some ([CHR ''{'', CHR 0x22] @ ''message'' @ [CHR 0x22, CHR '':'', CHR 0x22] @
     ''Message sent to queue successfully'' @ [CHR 0x22, CHR '','', CHR 0x22] @
     ''requestId'' @ [CHR 0x22, CHR '':'', CHR 0x22] @ r @ [CHR 0x22, CHR ''}''])"
proof -
  have "quote r = [CHR 0x22] @ r @ [CHR 0x22]"
    by (simp add: quote_def escape_plain [OF assms])
  moreover have "quote ''message'' = [CHR 0x22] @ ''message'' @ [CHR 0x22]"
    "quote ''requestId'' = [CHR 0x22] @ ''requestId'' @ [CHR 0x22]"
    "quote ''Message sent to queue successfully'' =
       [CHR 0x22] @ ''Message sent to queue successfully'' @ [CHR 0x22]"
    by (simp_all add: quote_def escape_char_def)
  ultimately show ?thesis
    by (simp add: List.map_filter_simps)
qed

text \<open>
  Claim C8. A POST to either resource is answered with status 200 and with the body
  that \<^verbatim>\<open>JSON.stringify\<close> gives for an object of two string properties: \<open>message\<close>, the
  fixed text, and \<open>requestId\<close>, the identifier of the request. Nothing else enters the
  answer: it is the same whatever the queuing service replied, and the consumer's result
  is no input of it. The template puts the identifier between the quotes as it is, so
  the identifier must need no escaping in JSON, as the identifiers the gateway makes
  do not.
\<close>

theorem accepted_call_answers_200_with_request_id:
  assumes route: "request_method rq = ''POST''"
      "request_path rq = ''/api/sample-lambda-1'' \<or> request_path rq = ''/api/sample-lambda-2''"
    and rid: "\<forall>c \<in> set (requestId rq). c \<noteq> CHR 0x22 \<and> c \<noteq> CHR 0x5C \<and> 32 \<le> (of_char c :: nat)"
  shows "\<exists>body. respond matches rq backend_status =
             Some \<lparr>response_status = ''200'', response_body = body\<rparr> \<and>
           stringify (JObj [(''message'', JStr ''Message sent to queue successfully''),
                            (''requestId'', JStr (requestId rq))]) = Some body"
proof -
  from find_method_post [OF route] obtain m where m: "find_method rq = Some m" by blast
  from find_method_cases [OF m] have i: "integration m = sqs_integration queue1 \<or>
        integration m = sqs_integration queue2" and mr: "methodResponses m = [''200'']"
    by (auto simp: sqsIntegration1_def sqsIntegration2_def)
  from i have sel: "select_response matches (integrationResponses (integration m)) backend_status =
      Some \<lparr>statusCode = ''200'', selectionPattern = None,
          responseTemplates = [(''application/json'', response_template)]\<rparr>"
    by (auto simp: select_response_def sqs_integration_def)
  have "respond matches rq backend_status =
      Some \<lparr>response_status = ''200'', response_body = render (context_of rq) response_template\<rparr>"
    by (simp add: respond_def m sel mr)
  moreover have "stringify (JObj [(''message'', JStr ''Message sent to queue successfully''),
                            (''requestId'', JStr (requestId rq))]) =
        Some (render (context_of rq) response_template)"
    unfolding render_response_template stringify_answer [OF rid]
    by (simp add: context_of_def)
  ultimately show ?thesis by blast
qed

text \<open>The answer to the sample request.\<close>

theorem accepted_call_answers_200_with_request_id_witness:
  "map_option response_status (respond (\<lambda>p s. False) hello_request ''200'') = Some ''200'' \<and>
   map_option response_body (respond (\<lambda>p s. False) hello_request ''200'') =
     stringify (JObj [(''message'', JStr ''Message sent to queue successfully''),
                      (''requestId'', JStr ''0f1e2d3c-4b5a-6978-8796-a5b4c3d2e1f0'')])"
proof -
  have route: "request_method hello_request = ''POST''"
      "request_path hello_request = ''/api/sample-lambda-1'' \<or>
       request_path hello_request = ''/api/sample-lambda-2''"
    by (simp_all add: hello_request_def)
  have rid: "\<forall>c \<in> set (requestId hello_request).
      c \<noteq> CHR 0x22 \<and> c \<noteq> CHR 0x5C \<and> 32 \<le> (of_char c :: nat)"
    by (simp add: hello_request_def)
  have r: "requestId hello_request = ''0f1e2d3c-4b5a-6978-8796-a5b4c3d2e1f0''"
    by (simp add: hello_request_def)
  from accepted_call_answers_200_with_request_id [OF route rid, of "\<lambda>p s. False" "''200''"]
  show ?thesis unfolding r by auto
qed

end
